theory Spec2Isabelle
  imports Complex_Main "HOL-Library.Word"
begin

section \<open>Values, errors and the outside world\<close>

text \<open>
  A JavaScript string is a sequence of UTF-16 code units. A literal of the source is
  written as an Isabelle string and read through \<open>utf16\<close>: the literals used here are
  ASCII, where the code unit of a character is its byte.
\<close>

type_synonym code_unit = "16 word"

type_synonym js_string = "code_unit list"

definition utf16 :: "string \<Rightarrow> js_string" where
  "utf16 s = map of_char s"

text \<open>
  A parsed JSON document, as \<open>response.json()\<close> hands it to the code. An object is an
  association list whose first binding of a key is the property. Numbers are abstracted
  to integers: the code only ever tests them for being zero (truthiness).
\<close>

datatype json =
    JNull
  | JBool bool
  | JNum int
  | JStr js_string
  | JArr "json list"
  | JObj "(js_string \<times> json) list"

text \<open>A thrown JavaScript exception: its constructor and its \<open>message\<close>.\<close>

datatype js_error = Error string | TypeError string | SyntaxError string

fun message :: "js_error \<Rightarrow> string" where
  "message (Error m) = m"
| "message (TypeError m) = m"
| "message (SyntaxError m) = m"

text \<open>
  What \<open>fetch\<close> is called with. \<open>JSON.stringify(payload)\<close> is kept as the JSON value
  it serialises.
\<close>

record request =
  req_url :: string
  req_method :: string
  req_headers :: "(string \<times> string) list"
  req_body :: "json option"

text \<open>
  A response object: its HTTP status and what \<open>response.json()\<close> gives, a parsed body
  or a thrown error. \<open>response.ok\<close> is, by the Fetch standard, a status in 200..299.
\<close>

record 'b response =
  status :: nat
  json_body :: "js_error + 'b"

definition ok :: "'b response \<Rightarrow> bool" where
  "ok r = (200 \<le> status r \<and> status r \<le> 299)"

text \<open>The promise returned by \<open>fetch\<close> either rejects (network failure) or resolves.\<close>

datatype 'b fetch_outcome = Rejected js_error | Resolved "'b response"

text \<open>
  The observable effects: the requests sent, the delays handed to \<open>setTimeout\<close> and
  the labels written with \<open>console.error\<close>, each oldest first.
\<close>

record world =
  requests :: "request list"
  timeouts :: "int list"
  console :: "string list"

text \<open>
  The network is an oracle: the outcome of a call depends on how many calls were made
  before it and on the request.
\<close>

type_synonym 'b network = "nat \<Rightarrow> request \<Rightarrow> 'b fetch_outcome"

definition fetch :: "'b network \<Rightarrow> request \<Rightarrow> world \<Rightarrow> 'b fetch_outcome \<times> world" where
  "fetch net req w = (net (length (requests w)) req, w\<lparr>requests := requests w @ [req]\<rparr>)"

definition setTimeout :: "int \<Rightarrow> world \<Rightarrow> world" where
  "setTimeout delay w = w\<lparr>timeouts := timeouts w @ [delay]\<rparr>"

definition console_error :: "string \<Rightarrow> world \<Rightarrow> world" where
  "console_error label w = w\<lparr>console := console w @ [label]\<rparr>"

section \<open>JavaScript property access on parsed JSON\<close>

text \<open>A JavaScript value here is a JSON value or \<open>undefined\<close> (\<open>None\<close>).\<close>

fun truthy :: "json option \<Rightarrow> bool" where
  "truthy None = False"
| "truthy (Some JNull) = False"
| "truthy (Some (JBool b)) = b"
| "truthy (Some (JNum n)) = (n \<noteq> 0)"
| "truthy (Some (JStr s)) = (s \<noteq> [])"
| "truthy (Some (JArr xs)) = True"
| "truthy (Some (JObj kvs)) = True"

text \<open>
  \<open>v.name\<close> on a value that is neither null nor undefined, for the names the code
  reads (candidates, content, parts, text): only an object has them.
\<close>

fun get_prop :: "json \<Rightarrow> string \<Rightarrow> json option" where
  "get_prop (JObj kvs) name = map_of kvs (utf16 name)"
| "get_prop v name = None"

text \<open>
  \<open>v[0]\<close> on a value that is neither null nor undefined: the first element of an
  array, the first code unit of a string, the property "0" of an object.
\<close>

fun get_index0 :: "json \<Rightarrow> json option" where
  "get_index0 (JArr xs) = (case xs of [] \<Rightarrow> None | x # rest \<Rightarrow> Some x)"
| "get_index0 (JStr s) = (case s of [] \<Rightarrow> None | c # rest \<Rightarrow> Some (JStr [c]))"
| "get_index0 (JObj kvs) = map_of kvs (utf16 ''0'')"
| "get_index0 v = None"

text \<open>Plain access throws on null and undefined; optional chaining gives undefined.\<close>

definition dot :: "json option \<Rightarrow> string \<Rightarrow> js_error + json option" where
  "dot v name =
     (case v of
        None \<Rightarrow> Inl (TypeError ''Cannot read properties of undefined'')
      | Some JNull \<Rightarrow> Inl (TypeError ''Cannot read properties of null'')
      | Some x \<Rightarrow> Inr (get_prop x name))"

definition at0 :: "json option \<Rightarrow> js_error + json option" where
  "at0 v =
     (case v of
        None \<Rightarrow> Inl (TypeError ''Cannot read properties of undefined'')
      | Some JNull \<Rightarrow> Inl (TypeError ''Cannot read properties of null'')
      | Some x \<Rightarrow> Inr (get_index0 x))"

definition opt_dot :: "json option \<Rightarrow> string \<Rightarrow> json option" where
  "opt_dot v name = (case v of None \<Rightarrow> None | Some JNull \<Rightarrow> None | Some x \<Rightarrow> get_prop x name)"

definition opt_at0 :: "json option \<Rightarrow> json option" where
  "opt_at0 v = (case v of None \<Rightarrow> None | Some JNull \<Rightarrow> None | Some x \<Rightarrow> get_index0 x)"

definition and_then :: "js_error + 'a \<Rightarrow> ('a \<Rightarrow> js_error + 'c) \<Rightarrow> js_error + 'c" where
  "and_then r f = (case r of Inl e \<Rightarrow> Inl e | Inr v \<Rightarrow> f v)"

section \<open>The generative-answer client\<close>

text \<open>Decimal rendering of a status code inside a template literal.\<close>

definition digit :: "nat \<Rightarrow> char" where
  "digit d = ''0123456789'' ! d"

fun show_nat :: "nat \<Rightarrow> string" where
  "show_nat n = (if n < 10 then [digit n] else show_nat (n div 10) @ [digit (n mod 10)])"

declare show_nat.simps [simp del]

definition payload :: "js_string \<Rightarrow> json" where
  "payload prompt =
     JObj [(utf16 ''contents'',
       JArr [JObj [(utf16 ''role'', JStr (utf16 ''user'')),
                   (utf16 ''parts'', JArr [JObj [(utf16 ''text'', JStr prompt)]])]])]"

text \<open>The template literal for the endpoint: an undefined key prints as "undefined".\<close>

definition apiUrl :: "string option \<Rightarrow> string" where
  "apiUrl apiKey =
     ''https://generativelanguage.googleapis.com/v1beta/models/gemini-2.5-flash-preview-05-20:generateContent?key=''
     @ (case apiKey of None \<Rightarrow> ''undefined'' | Some k \<Rightarrow> k)"

definition post :: "string \<Rightarrow> json \<Rightarrow> request" where
  "post u body =
     \<lparr>req_url = u, req_method = ''POST'',
      req_headers = [(''Content-Type'', ''application/json'')],
      req_body = Some body\<rparr>"

definition missing_key_message :: string where
  "missing_key_message =
     ''API key is missing. Please create a .env.local file and add your VITE_GEMINI_API_KEY.''"

definition fallback_message :: string where
  "fallback_message = ''I couldn't find a clear answer for that. Could you try rephrasing?''"

text \<open>
  The condition of the \<open>if\<close> on the parsed body:
  \<open>result.candidates && result.candidates[0]?.content?.parts?.[0]?.text\<close>.
  Only the first access is a plain one.
\<close>

definition has_answer :: "json \<Rightarrow> js_error + bool" where
  "has_answer result =
     and_then (dot (Some result) ''candidates'') (\<lambda>candidates.
       if \<not> truthy candidates then Inr False
       else and_then (at0 candidates) (\<lambda>c0.
         Inr (truthy (opt_dot (opt_at0 (opt_dot (opt_dot c0 ''content'') ''parts'')) ''text''))))"

text \<open>The returned expression \<open>result.candidates[0].content.parts[0].text\<close>, all plain.\<close>

definition answer :: "json \<Rightarrow> js_error + json option" where
  "answer result =
     and_then (dot (Some result) ''candidates'') (\<lambda>candidates.
     and_then (at0 candidates) (\<lambda>c0.
     and_then (dot c0 ''content'') (\<lambda>content.
     and_then (dot content ''parts'') (\<lambda>parts.
     and_then (at0 parts) (\<lambda>p0.
     dot p0 ''text'')))))"

text \<open>
  How the body of the \<open>try\<close> block is left: by a \<open>return\<close> of a value, by the
  \<open>return callGeminiAPI(...)\<close> of the 429 branch (not awaited, so a rejection of the
  inner call does not reach this \<open>catch\<close>), or by an exception that the \<open>catch\<close>
  receives. The \<open>throw\<close> for a non-OK status stands inside the \<open>try\<close>.
\<close>

datatype try_outcome = Returned "json option" | Backoff429 | Caught js_error

definition try_block :: "json network \<Rightarrow> request \<Rightarrow> int \<Rightarrow> world \<Rightarrow> try_outcome \<times> world" where
  "try_block net req retries w =
     (case fetch net req w of (out, w1) \<Rightarrow>
        (case out of
           Rejected e \<Rightarrow> (Caught e, w1)
         | Resolved response \<Rightarrow>
             if \<not> ok response then
               if status response = 429 \<and> retries > 0 then (Backoff429, w1)
               else (Caught (Error (''API responded with status: '' @ show_nat (status response))), w1)
             else
               (case json_body response of
                  Inl e \<Rightarrow> (Caught e, w1)
                | Inr result \<Rightarrow>
                    (case has_answer result of
                       Inl e \<Rightarrow> (Caught e, w1)
                     | Inr True \<Rightarrow>
                         (case answer result of
                            Inl e \<Rightarrow> (Caught e, w1)
                          | Inr v \<Rightarrow> (Returned v, w1))
                     | Inr False \<Rightarrow>
                         (Returned (Some (JStr (utf16 fallback_message))),
                          console_error ''Unexpected API response structure:'' w1)))))"

lemma try_block_Backoff429:
  "try_block net req retries w = (Backoff429, w1) \<Longrightarrow> retries > 0"
  by (auto simp: try_block_def fetch_def split: fetch_outcome.splits if_splits sum.splits bool.splits)

text \<open>
  \<open>callGeminiAPI\<close> of the tracker screens, where the credential is read from the
  environment (\<open>None\<close> when the variable is not set). The result is the value the
  promise resolves to, or the error it rejects with.
\<close>

function callGeminiAPI ::
  "string option \<Rightarrow> json network \<Rightarrow> js_string \<Rightarrow> int \<Rightarrow> int \<Rightarrow> world
     \<Rightarrow> (js_error + json option) \<times> world" where
  "callGeminiAPI apiKey net prompt retries delay w =
     (if apiKey = None \<or> apiKey = Some [] then
        (Inr (Some (JStr (utf16 missing_key_message))), console_error missing_key_message w)
      else
        (case try_block net (post (apiUrl apiKey) (payload prompt)) retries w of
           (Returned v, w1) \<Rightarrow> (Inr v, w1)
         | (Backoff429, w1) \<Rightarrow>
             callGeminiAPI apiKey net prompt (retries - 1) (delay * 2) (setTimeout delay w1)
         | (Caught e, w1) \<Rightarrow>
             (let w2 = console_error ''Error calling Gemini API:'' w1 in
              if retries > 0 then
                callGeminiAPI apiKey net prompt (retries - 1) (delay * 2) (setTimeout delay w2)
              else (Inl e, w2))))"
  by pat_completeness auto
termination
  by (relation "measure (\<lambda>(apiKey, net, prompt, retries, delay, w). nat retries)")
     (auto dest: try_block_Backoff429 [OF sym])

declare callGeminiAPI.simps [simp del]


text \<open>A call with the prompt alone takes the default parameters.\<close>

definition callGeminiAPI_defaults ::
  "string option \<Rightarrow> json network \<Rightarrow> js_string \<Rightarrow> world \<Rightarrow> (js_error + json option) \<times> world" where
  "callGeminiAPI_defaults apiKey net prompt w = callGeminiAPI apiKey net prompt 3 1000 w"

text \<open>
  \<open>callGeminiAPI\<close> of the history and chatbot screens: the same body without the
  check of the credential, which is a literal of the source there (a parameter here).
\<close>

function callGeminiAPI_literal ::
  "string \<Rightarrow> json network \<Rightarrow> js_string \<Rightarrow> int \<Rightarrow> int \<Rightarrow> world
     \<Rightarrow> (js_error + json option) \<times> world" where
  "callGeminiAPI_literal apiKey net prompt retries delay w =
     (case try_block net (post (apiUrl (Some apiKey)) (payload prompt)) retries w of
        (Returned v, w1) \<Rightarrow> (Inr v, w1)
      | (Backoff429, w1) \<Rightarrow>
          callGeminiAPI_literal apiKey net prompt (retries - 1) (delay * 2) (setTimeout delay w1)
      | (Caught e, w1) \<Rightarrow>
          (let w2 = console_error ''Error calling Gemini API:'' w1 in
           if retries > 0 then
             callGeminiAPI_literal apiKey net prompt (retries - 1) (delay * 2) (setTimeout delay w2)
           else (Inl e, w2)))"
  by pat_completeness auto
termination
  by (relation "measure (\<lambda>(apiKey, net, prompt, retries, delay, w). nat retries)")
     (auto dest: try_block_Backoff429 [OF sym])

declare callGeminiAPI_literal.simps [simp del]

section \<open>The telemetry poller\<close>

text \<open>
  The numbers of the poller are the double-precision values of the engine. Their type is
  left open here, and so are the operations on them: how a numeric literal is read, the
  four arithmetic operations, the constant \<open>Math.PI\<close>, the conversion
  \<open>Vector3.setFromSphericalCoords(radius, phi, theta)\<close> of the rendering library, and
  the rounding of a number that is stored into a \<open>Float32BufferAttribute\<close>.
\<close>

record 'n numerics =
  js_num :: "real \<Rightarrow> 'n"
  js_add :: "'n \<Rightarrow> 'n \<Rightarrow> 'n"
  js_sub :: "'n \<Rightarrow> 'n \<Rightarrow> 'n"
  js_mul :: "'n \<Rightarrow> 'n \<Rightarrow> 'n"
  js_div :: "'n \<Rightarrow> 'n \<Rightarrow> 'n"
  Math_PI :: 'n
  setFromSphericalCoords :: "'n \<Rightarrow> 'n \<Rightarrow> 'n \<Rightarrow> 'n \<times> 'n \<times> 'n"
  toFloat32 :: "'n \<Rightarrow> 'n"

record 'n sample =
  latitude :: 'n
  longitude :: 'n
  altitude :: 'n
  velocity :: 'n
  visibility :: js_string

text \<open>\<open>(90 - latitude) * (Math.PI / 180)\<close>\<close>

definition phi_of :: "'n numerics \<Rightarrow> 'n \<Rightarrow> 'n" where
  "phi_of E lat = js_mul E (js_sub E (js_num E 90) lat) (js_div E (Math_PI E) (js_num E 180))"

text \<open>\<open>(longitude + 180) * (Math.PI / 180)\<close>\<close>

definition theta_of :: "'n numerics \<Rightarrow> 'n \<Rightarrow> 'n" where
  "theta_of E lon = js_mul E (js_add E lon (js_num E 180)) (js_div E (Math_PI E) (js_num E 180))"

text \<open>\<open>2.1 + altitude / 6371\<close>\<close>

definition issRadius_of :: "'n numerics \<Rightarrow> 'n \<Rightarrow> 'n" where
  "issRadius_of E alt = js_add E (js_num E 2.1) (js_div E alt (js_num E 6371))"

definition groundTrackRadius :: "'n numerics \<Rightarrow> 'n" where
  "groundTrackRadius E = js_num E 2.01"

text \<open>The conversion of a geographic position at a radius, as the poller composes it.\<close>

definition geo_to_cartesian :: "'n numerics \<Rightarrow> 'n \<Rightarrow> 'n \<Rightarrow> 'n \<Rightarrow> 'n \<times> 'n \<times> 'n" where
  "geo_to_cartesian E r lat lon = setFromSphericalCoords E r (phi_of E lat) (theta_of E lon)"

text \<open>
  A trail buffer is the flat coordinate array of a line geometry. One append:
  \<open>points.push(x, y, z); if (points.length > 3000) points.splice(0, 3)\<close>.
\<close>

definition push_trail :: "'a list \<Rightarrow> 'a \<times> 'a \<times> 'a \<Rightarrow> 'a list" where
  "push_trail points p =
     (case p of (x, y, z) \<Rightarrow>
        (let pushed = points @ [x, y, z]
         in if length pushed > 3000 then drop 3 pushed else pushed))"


text \<open>
  The state the poller reads and writes: the two React states, the position of the
  station's mesh and the two line buffers (\<open>None\<close> while a ref is still null), and the
  observable effects. A line buffer is the array of the position attribute of its
  geometry; a geometry without the attribute reads as the empty array. The orientation
  set by \<open>lookAt\<close> is left out.
\<close>

record 'n tracker =
  issData :: "'n sample option"
  error :: "string option"
  issMesh :: "('n \<times> 'n \<times> 'n) option"
  orbitLine :: "'n list option"
  groundTrackLine :: "'n list option"
  tracker_io :: world

definition API_URL_ISS :: string where
  "API_URL_ISS = ''https://api.wheretheiss.at/v1/satellites/25544''"

definition get_request :: "string \<Rightarrow> request" where
  "get_request u = \<lparr>req_url = u, req_method = ''GET'', req_headers = [], req_body = None\<rparr>"

text \<open>
  The orbital path reads the position of the mesh, which throws when the ref is null.
  The new attribute holds the array rounded to single precision.
\<close>

definition orbit_step :: "'n numerics \<Rightarrow> 'n tracker \<Rightarrow> js_error + 'n tracker" where
  "orbit_step E s =
     (case orbitLine s of
        None \<Rightarrow> Inr s
      | Some points \<Rightarrow>
          (case issMesh s of
             None \<Rightarrow> Inl (TypeError ''Cannot read properties of null'')
           | Some position \<Rightarrow>
               Inr (s\<lparr>orbitLine := Some (map (toFloat32 E) (push_trail points position))\<rparr>)))"

definition ground_step :: "'n numerics \<Rightarrow> 'n \<Rightarrow> 'n \<Rightarrow> 'n tracker \<Rightarrow> 'n tracker" where
  "ground_step E phi theta s =
     (case groundTrackLine s of
        None \<Rightarrow> s
      | Some points \<Rightarrow>
          (let groundPosition = setFromSphericalCoords E (groundTrackRadius E) phi theta
           in s\<lparr>groundTrackLine := Some (map (toFloat32 E) (push_trail points groundPosition))\<rparr>))"

text \<open>The body of the \<open>try\<close> block of \<open>fetchISSData\<close>: the state it leaves, and the exception if one is thrown.\<close>

definition fetchISSData_try ::
  "'n numerics \<Rightarrow> 'n sample network \<Rightarrow> 'n tracker \<Rightarrow> js_error option \<times> 'n tracker" where
  "fetchISSData_try E net s =
     (case fetch net (get_request API_URL_ISS) (tracker_io s) of (out, w1) \<Rightarrow>
        (let s0 = s\<lparr>tracker_io := w1\<rparr> in
         case out of
           Rejected e \<Rightarrow> (Some e, s0)
         | Resolved response \<Rightarrow>
             if \<not> ok response then (Some (Error ''Network response was not ok''), s0)
             else
               (case json_body response of
                  Inl e \<Rightarrow> (Some e, s0)
                | Inr data \<Rightarrow>
                    (let s1 = s0\<lparr>issData := Some data, error := None\<rparr>;
                         phi = phi_of E (latitude data);
                         theta = theta_of E (longitude data);
                         issRadius = issRadius_of E (altitude data);
                         s2 = (case issMesh s1 of
                                 None \<Rightarrow> s1
                               | Some old \<Rightarrow>
                                   s1\<lparr>issMesh := Some (setFromSphericalCoords E issRadius phi theta)\<rparr>)
                     in case orbit_step E s2 of
                          Inl e \<Rightarrow> (Some e, s2)
                        | Inr s3 \<Rightarrow> (None, ground_step E phi theta s3)))))"

definition fetchISSData :: "'n numerics \<Rightarrow> 'n sample network \<Rightarrow> 'n tracker \<Rightarrow> 'n tracker" where
  "fetchISSData E net s =
     (case fetchISSData_try E net s of
        (None, s') \<Rightarrow> s'
      | (Some err, s') \<Rightarrow>
          s'\<lparr>error := Some (message err),
             tracker_io := console_error ''Failed to fetch ISS data:'' (tracker_io s')\<rparr>)"

section \<open>The chatbot\<close>

datatype sender = User | Bot

record chat_message =
  msg_text :: "json option"
  msg_sender :: sender

text \<open>
  What \<open>handleSend\<close> does to the component, in the order in which it does it: the
  three state setters, and the call of the client whose promise it awaits.
\<close>

datatype chat_event =
    Appended chat_message
  | InputSet js_string
  | LoadingSet bool
  | Called js_string

text \<open>The three React states, the observable effects, and the events so far, oldest first.\<close>

record chat =
  messages :: "chat_message list"
  input :: js_string
  isLoading :: bool
  chat_io :: world
  chat_events :: "chat_event list"

text \<open>
  \<open>String.prototype.trim\<close> removes, at both ends, the code units that are white space
  or line terminators of the language: tab, line feed, vertical tab, form feed, carriage
  return, space, no-break space, the Ogham space mark, the spaces U+2000 to U+200A, the
  line and paragraph separators, the narrow no-break space, the medium mathematical
  space, the ideographic space and the byte order mark.
\<close>

definition is_white_space :: "code_unit \<Rightarrow> bool" where
  "is_white_space u =
     (u \<in> {0x9, 0xA, 0xB, 0xC, 0xD, 0x20, 0xA0, 0x1680, 0x2028, 0x2029, 0x202F, 0x205F,
            0x3000, 0xFEFF}
      \<or> (0x2000 \<le> u \<and> u \<le> 0x200A))"

definition trim :: "js_string \<Rightarrow> js_string" where
  "trim s = rev (dropWhile is_white_space (rev (dropWhile is_white_space s)))"

definition chat_prompt :: "js_string \<Rightarrow> js_string" where
  "chat_prompt currentInput =
     utf16 ''You are a helpful and knowledgeable assistant specializing in NASA's history. Answer the following question concisely and accurately. Question: ''
     @ currentInput"

definition apology :: string where
  "apology = ''Sorry, I'm having trouble connecting to my knowledge base right now. Please try again in a moment.''"

text \<open>\<open>setMessages(prev => [...prev, m])\<close>, \<open>setInput(v)\<close> and \<open>setIsLoading(b)\<close>.\<close>

definition setMessages_append :: "chat_message \<Rightarrow> chat \<Rightarrow> chat" where
  "setMessages_append m st =
     st\<lparr>messages := messages st @ [m], chat_events := chat_events st @ [Appended m]\<rparr>"

definition setInput :: "js_string \<Rightarrow> chat \<Rightarrow> chat" where
  "setInput v st = st\<lparr>input := v, chat_events := chat_events st @ [InputSet v]\<rparr>"

definition setIsLoading :: "bool \<Rightarrow> chat \<Rightarrow> chat" where
  "setIsLoading b st = st\<lparr>isLoading := b, chat_events := chat_events st @ [LoadingSet b]\<rparr>"

text \<open>
  \<open>await callGeminiAPI(prompt)\<close> with the default parameters: the call is recorded,
  the client runs in the world as it is then, and the outcome of its promise is handed
  back.
\<close>

definition await_callGeminiAPI ::
  "string \<Rightarrow> json network \<Rightarrow> js_string \<Rightarrow> chat \<Rightarrow> (js_error + json option) \<times> chat" where
  "await_callGeminiAPI apiKey net prompt st =
     (case callGeminiAPI_literal apiKey net prompt 3 1000 (chat_io st) of
        (outcome, w) \<Rightarrow>
          (outcome, st\<lparr>chat_io := w, chat_events := chat_events st @ [Called prompt]\<rparr>))"

definition handleSend :: "string \<Rightarrow> json network \<Rightarrow> chat \<Rightarrow> chat" where
  "handleSend apiKey net st =
     (if trim (input st) = [] \<or> isLoading st then st
      else
        (let userMessage = \<lparr>msg_text = Some (JStr (input st)), msg_sender = User\<rparr>;
             st1 = setMessages_append userMessage st;
             currentInput = input st;
             st2 = setInput [] st1;
             st3 = setIsLoading True st2;
             prompt = chat_prompt currentInput;
             st5 =
               (case await_callGeminiAPI apiKey net prompt st3 of
                  (Inr botResponseText, st4) \<Rightarrow>
                    setMessages_append \<lparr>msg_text = botResponseText, msg_sender = Bot\<rparr> st4
                | (Inl e, st4) \<Rightarrow>
                    setMessages_append \<lparr>msg_text = Some (JStr (utf16 apology)), msg_sender = Bot\<rparr>
                      (st4\<lparr>chat_io := console_error ''Failed to get response from AI:'' (chat_io st4)\<rparr>))
         in setIsLoading False st5))"

section \<open>What the specification speaks of\<close>

text \<open>
  The expected shape of a response body, by plain JSON navigation: the member
  \<open>candidates\<close> is an array whose first element has \<open>content.parts\<close>, an array whose
  first element has the member \<open>text\<close>.
\<close>

fun obj_field :: "string \<Rightarrow> json \<Rightarrow> json option" where
  "obj_field k (JObj kvs) = map_of kvs (utf16 k)"
| "obj_field k v = None"

fun arr_first :: "json \<Rightarrow> json option" where
  "arr_first (JArr (x # xs)) = Some x"
| "arr_first v = None"

definition first_candidate_text :: "json \<Rightarrow> json option" where
  "first_candidate_text body =
     Option.bind (Option.bind (Option.bind (Option.bind (Option.bind
       (obj_field ''candidates'' body) arr_first) (obj_field ''content''))
       (obj_field ''parts'')) arr_first) (obj_field ''text'')"

text \<open>The well-formed envelope around an answer.\<close>

definition envelope :: "js_string \<Rightarrow> json" where
  "envelope t =
     JObj [(utf16 ''candidates'',
       JArr [JObj [(utf16 ''content'',
         JObj [(utf16 ''parts'', JArr [JObj [(utf16 ''text'', JStr t)]])])]])]"

text \<open>
  The failure an attempt ends in, if it does: a rejected request, a status that is not
  OK, or a body that does not parse.
\<close>

definition failure :: "json fetch_outcome \<Rightarrow> js_error option" where
  "failure out =
     (case out of
        Rejected e \<Rightarrow> Some e
      | Resolved r \<Rightarrow>
          if \<not> ok r then Some (Error (''API responded with status: '' @ show_nat (status r)))
          else (case json_body r of Inl e \<Rightarrow> Some e | Inr b \<Rightarrow> None))"

text \<open>The coordinates of a sequence of points, in order.\<close>

definition flat :: "('a \<times> 'a \<times> 'a) list \<Rightarrow> 'a list" where
  "flat ps = concat (map (\<lambda>(x, y, z). [x, y, z]) ps)"

text \<open>The two messages the chatbot appends around a failed call.\<close>

definition user_message :: "chat \<Rightarrow> chat_message" where
  "user_message st = \<lparr>msg_text = Some (JStr (input st)), msg_sender = User\<rparr>"

definition apology_message :: chat_message where
  "apology_message = \<lparr>msg_text = Some (JStr (utf16 apology)), msg_sender = Bot\<rparr>"

text \<open>A world in which nothing has happened yet.\<close>

definition quiet :: world where
  "quiet = \<lparr>requests = [], timeouts = [], console = []\<rparr>"


section \<open>Scenarios\<close>

text \<open>Two rate-limited answers, then a well-formed one.\<close>

definition flaky :: "json network" where
  "flaky n req =
     (if n < 2 then Resolved \<lparr>status = 429, json_body = Inl (SyntaxError ''Unexpected end of JSON input'')\<rparr>
      else Resolved \<lparr>status = 200, json_body = Inr (envelope (utf16 ''Houston''))\<rparr>)"

text \<open>Every request is rejected.\<close>

definition offline :: "json network" where
  "offline n req = Rejected (TypeError ''Failed to fetch'')"

text \<open>An internal server error, then a well-formed answer.\<close>

definition server_error_once :: "json network" where
  "server_error_once n req =
     (if n = 0 then Resolved \<lparr>status = 500, json_body = Inl (SyntaxError ''Unexpected end of JSON input'')\<rparr>
      else Resolved \<lparr>status = 200, json_body = Inr (envelope (utf16 ''Houston''))\<rparr>)"

text \<open>Every answer is OK and its body is the JSON document \<open>null\<close>.\<close>

definition null_body :: "json network" where
  "null_body n req = Resolved \<lparr>status = 200, json_body = Inr JNull\<rparr>"

text \<open>Every answer is OK and well-formed.\<close>

definition healthy :: "json network" where
  "healthy n req = Resolved \<lparr>status = 200, json_body = Inr (envelope (utf16 ''Houston''))\<rparr>"

text \<open>
  An engine that computes with real numbers and never rounds. It is not the arithmetic
  of the program; it gives the scenarios of the poller numbers to run on.
\<close>

definition unrounded :: "real numerics" where
  "unrounded =
     \<lparr>js_num = (\<lambda>x. x), js_add = (+), js_sub = (-), js_mul = (*), js_div = (/),
      Math_PI = pi,
      setFromSphericalCoords = (\<lambda>radius phi theta.
        (sin phi * radius * sin theta, cos phi * radius, sin phi * radius * cos theta)),
      toFloat32 = (\<lambda>x. x)\<rparr>"

text \<open>The telemetry endpoint cannot be reached.\<close>

definition iss_offline :: "real sample network" where
  "iss_offline n req = Rejected (TypeError ''Failed to fetch'')"

text \<open>The telemetry endpoint answers that the service is unavailable.\<close>

definition iss_unavailable :: "real sample network" where
  "iss_unavailable n req =
     Resolved \<lparr>status = 503, json_body = Inl (SyntaxError ''Unexpected end of JSON input'')\<rparr>"

text \<open>A tracker that shows a sample and has one point in each trail.\<close>

definition overhead :: "real sample" where
  "overhead =
     \<lparr>latitude = 0, longitude = 0, altitude = 420, velocity = 27600,
      visibility = utf16 ''daylight''\<rparr>"

definition tracking :: "real tracker" where
  "tracking =
     \<lparr>issData = Some overhead, error = None, issMesh = Some (0, 0, - 3),
      orbitLine = Some [0, 0, - 3], groundTrackLine = Some [0, 0, - 2],
      tracker_io = quiet\<rparr>"

text \<open>
  The chatbot after its greeting: with a question typed, and with a space, a no-break
  space, an ideographic space and a byte order mark typed.
\<close>

definition greeting :: chat_message where
  "greeting = \<lparr>msg_text = Some (JStr (utf16 ''Hello! I'm an AI expert on NASA's history. Ask me anything about missions, astronauts, or discoveries!'')), msg_sender = Bot\<rparr>"

definition asking :: chat where
  "asking =
     \<lparr>messages = [greeting], input = utf16 ''Apollo?'', isLoading = False, chat_io = quiet,
      chat_events = []\<rparr>"

definition blank :: chat where
  "blank =
     \<lparr>messages = [greeting], input = [0x20, 0xA0, 0x3000, 0xFEFF], isLoading = False,
      chat_io = quiet, chat_events = []\<rparr>"

section \<open>The generative-answer client: properties\<close>

lemma obj_field_dot:
  "obj_field k v = Some x \<Longrightarrow> dot (Some v) k = Inr (Some x) \<and> opt_dot (Some v) k = Some x"
  by (cases v) (simp_all add: dot_def opt_dot_def)

lemma arr_first_at0:
  "arr_first v = Some x \<Longrightarrow> at0 (Some v) = Inr (Some x) \<and> opt_at0 (Some v) = Some x \<and> truthy (Some v)"
  by (induction v rule: arr_first.induct) (simp_all add: at0_def opt_at0_def)

lemma first_candidate_text_path:
  assumes "first_candidate_text body = Some v"
  obtains cs c0 content parts p0 where
    "obj_field ''candidates'' body = Some cs" "arr_first cs = Some c0"
    "obj_field ''content'' c0 = Some content" "obj_field ''parts'' content = Some parts"
    "arr_first parts = Some p0" "obj_field ''text'' p0 = Some v"
  using assms unfolding first_candidate_text_def
  by (auto simp: bind_eq_Some_conv)

lemma has_answer_text:
  assumes "first_candidate_text body = Some v" "truthy (Some v)"
  shows "has_answer body = Inr True" "answer body = Inr (Some v)"
proof -
  from assms(1) obtain cs c0 content parts p0 where p:
    "obj_field ''candidates'' body = Some cs" "arr_first cs = Some c0"
    "obj_field ''content'' c0 = Some content" "obj_field ''parts'' content = Some parts"
    "arr_first parts = Some p0" "obj_field ''text'' p0 = Some v"
    by (rule first_candidate_text_path)
  note a = obj_field_dot [OF p(1)] arr_first_at0 [OF p(2)] obj_field_dot [OF p(3)]
    obj_field_dot [OF p(4)] arr_first_at0 [OF p(5)] obj_field_dot [OF p(6)]
  show "has_answer body = Inr True"
    using assms(2) by (simp add: has_answer_def and_then_def a)
  show "answer body = Inr (Some v)"
    by (simp add: answer_def and_then_def a)
qed

lemma call_no_key:
  "apiKey = None \<or> apiKey = Some [] \<Longrightarrow>
   callGeminiAPI apiKey net prompt retries delay w =
     (Inr (Some (JStr (utf16 missing_key_message))), console_error missing_key_message w)"
  by (subst callGeminiAPI.simps) auto

lemma call_unfold:
  "apiKey = Some k \<Longrightarrow> k \<noteq> [] \<Longrightarrow>
   callGeminiAPI apiKey net prompt retries delay w =
     (case try_block net (post (apiUrl apiKey) (payload prompt)) retries w of
        (Returned v, w1) \<Rightarrow> (Inr v, w1)
      | (Backoff429, w1) \<Rightarrow>
          callGeminiAPI apiKey net prompt (retries - 1) (delay * 2) (setTimeout delay w1)
      | (Caught e, w1) \<Rightarrow>
          (let w2 = console_error ''Error calling Gemini API:'' w1 in
           if retries > 0 then
             callGeminiAPI apiKey net prompt (retries - 1) (delay * 2) (setTimeout delay w2)
           else (Inl e, w2)))"
  by (subst callGeminiAPI.simps) simp

lemma status_429_not_ok: "status r = 429 \<Longrightarrow> \<not> ok r"
  by (simp add: ok_def)

lemma call_success:
  assumes "apiKey = Some k" "k \<noteq> []"
    and "net (length (requests w)) (post (apiUrl apiKey) (payload prompt)) = Resolved r"
    and "ok r" "json_body r = Inr body"
    and "first_candidate_text body = Some v" "truthy (Some v)"
  shows "callGeminiAPI apiKey net prompt retries delay w =
           (Inr (Some v), w\<lparr>requests := requests w @ [post (apiUrl apiKey) (payload prompt)]\<rparr>)"
  using assms(3-5) has_answer_text [OF assms(6,7)]
  by (subst call_unfold [OF assms(1,2)]) (simp add: try_block_def fetch_def)

lemma call_429:
  assumes "apiKey = Some k" "k \<noteq> []"
    and "net (length (requests w)) (post (apiUrl apiKey) (payload prompt)) = Resolved r"
    and "status r = 429" "retries > 0"
  shows "callGeminiAPI apiKey net prompt retries delay w =
           callGeminiAPI apiKey net prompt (retries - 1) (delay * 2)
             (w\<lparr>requests := requests w @ [post (apiUrl apiKey) (payload prompt)],
                timeouts := timeouts w @ [delay]\<rparr>)"
  using assms(3-5) status_429_not_ok [OF assms(4)]
  by (subst call_unfold [OF assms(1,2)]) (simp add: try_block_def fetch_def setTimeout_def)

lemma call_backoff:
  assumes key: "apiKey = Some k" "k \<noteq> []"
    and limited: "\<forall>i<n. \<exists>r. net (length (requests w) + i) (post (apiUrl apiKey) (payload prompt)) = Resolved r \<and> status r = 429"
    and success: "net (length (requests w) + n) (post (apiUrl apiKey) (payload prompt)) = Resolved r"
      "ok r" "json_body r = Inr body" "first_candidate_text body = Some v" "truthy (Some v)"
    and bound: "int n \<le> retries"
  shows "callGeminiAPI apiKey net prompt retries delay w =
           (Inr (Some v),
            w\<lparr>requests := requests w @ replicate (Suc n) (post (apiUrl apiKey) (payload prompt)),
              timeouts := timeouts w @ map (\<lambda>i. delay * 2 ^ i) [0..<n]\<rparr>)"
  using limited success(1) bound
proof (induction n arbitrary: w retries delay)
  case 0
  then show ?case
    using call_success [where net = net and w = w and prompt = prompt and retries = retries and delay = delay, OF key _ success(2-5)] by simp
next
  case (Suc n)
  let ?req = "post (apiUrl apiKey) (payload prompt)"
  let ?w = "w\<lparr>requests := requests w @ [?req], timeouts := timeouts w @ [delay]\<rparr>"
  from Suc.prems(1) obtain r0 where r0: "net (length (requests w)) ?req = Resolved r0" "status r0 = 429"
    by force
  have pos: "retries > 0" using Suc.prems(3) by simp
  have step: "callGeminiAPI apiKey net prompt retries delay w =
      callGeminiAPI apiKey net prompt (retries - 1) (delay * 2) ?w"
    by (rule call_429 [where net = net and w = w, OF key r0 pos])
  have lim: "\<forall>i<n. \<exists>r. net (length (requests ?w) + i) ?req = Resolved r \<and> status r = 429"
    using Suc.prems(1) by auto
  have suc: "net (length (requests ?w) + n) ?req = Resolved r"
    using Suc.prems(2) by simp
  have bnd: "int n \<le> retries - 1" using Suc.prems(3) by simp
  show ?case
    unfolding step Suc.IH [OF lim suc bnd]
    by (simp add: map_upt_Suc replicate_app_Cons_same del: upt_Suc)
qed


lemma failing_attempt:
  assumes "failure (net (length (requests w)) req) = Some e"
  shows "(retries > 0 \<and> e = Error (''API responded with status: '' @ show_nat 429) \<and>
            try_block net req retries w = (Backoff429, w\<lparr>requests := requests w @ [req]\<rparr>))
         \<or> try_block net req retries w = (Caught e, w\<lparr>requests := requests w @ [req]\<rparr>)"
  using assms
  by (auto simp: failure_def try_block_def fetch_def split: fetch_outcome.splits if_splits sum.splits)

lemma failing_attempt_retry:
  assumes key: "apiKey = Some k" "k \<noteq> []"
    and fail: "failure (net (length (requests w)) (post (apiUrl apiKey) (payload prompt))) = Some e"
    and pos: "retries > 0"
  shows "\<exists>w'. callGeminiAPI apiKey net prompt retries delay w =
                callGeminiAPI apiKey net prompt (retries - 1) (delay * 2) w'
            \<and> requests w' = requests w @ [post (apiUrl apiKey) (payload prompt)]
            \<and> timeouts w' = timeouts w @ [delay]"
  using failing_attempt [where net = net and w = w and retries = retries, OF fail] pos
  by (subst call_unfold [OF key]) (auto simp: setTimeout_def console_error_def)

lemma failing_attempt_last:
  assumes key: "apiKey = Some k" "k \<noteq> []"
    and fail: "failure (net (length (requests w)) (post (apiUrl apiKey) (payload prompt))) = Some e"
    and last: "retries \<le> 0"
  shows "\<exists>w'. callGeminiAPI apiKey net prompt retries delay w = (Inl e, w')
            \<and> requests w' = requests w @ [post (apiUrl apiKey) (payload prompt)]
            \<and> timeouts w' = timeouts w"
  using failing_attempt [where net = net and w = w and retries = retries, OF fail] last
  by (subst call_unfold [OF key]) (auto simp: console_error_def)

lemma call_exhausted:
  assumes key: "apiKey = Some k" "k \<noteq> []"
    and fails: "\<forall>i\<le>n. failure (net (length (requests w) + i) (post (apiUrl apiKey) (payload prompt))) = Some (errs i)"
    and n: "n = nat retries"
  shows "fst (callGeminiAPI apiKey net prompt retries delay w) = Inl (errs n)
       \<and> requests (snd (callGeminiAPI apiKey net prompt retries delay w)) =
           requests w @ replicate (Suc n) (post (apiUrl apiKey) (payload prompt))
       \<and> timeouts (snd (callGeminiAPI apiKey net prompt retries delay w)) =
           timeouts w @ map (\<lambda>i. delay * 2 ^ i) [0..<n]"
  using fails n
proof (induction n arbitrary: w retries delay errs)
  case 0
  let ?req = "post (apiUrl apiKey) (payload prompt)"
  have f: "failure (net (length (requests w)) ?req) = Some (errs 0)"
    using "0.prems"(1) by simp
  have "retries \<le> 0" using "0.prems"(2) by simp
  from failing_attempt_last [where net = net and w = w and delay = delay, OF key f this] show ?case
    by auto
next
  case (Suc n)
  let ?req = "post (apiUrl apiKey) (payload prompt)"
  have f: "failure (net (length (requests w)) ?req) = Some (errs 0)"
    using Suc.prems(1) [rule_format, of 0] by simp
  have pos: "retries > 0" using Suc.prems(2) by simp
  from failing_attempt_retry [where net = net and w = w and delay = delay, OF key f pos] obtain w' where
    step: "callGeminiAPI apiKey net prompt retries delay w =
             callGeminiAPI apiKey net prompt (retries - 1) (delay * 2) w'"
    and rq: "requests w' = requests w @ [?req]"
    and tm: "timeouts w' = timeouts w @ [delay]"
    by blast
  have fs: "\<forall>i\<le>n. failure (net (length (requests w') + i) ?req) = Some (errs (Suc i))"
  proof (intro allI impI)
    fix i assume "i \<le> n"
    then show "failure (net (length (requests w') + i) ?req) = Some (errs (Suc i))"
      using Suc.prems(1) [rule_format, of "Suc i"] rq by simp
  qed
  have n': "n = nat (retries - 1)" using Suc.prems(2) by simp
  show ?case
    unfolding step using Suc.IH [where w = w' and delay = "delay * 2", OF fs n']
    by (simp add: rq tm map_upt_Suc replicate_app_Cons_same del: upt_Suc)
qed

text \<open>
  A body other than \<open>null\<close> never makes the shape test throw, and a body other than
  \<open>null\<close> without the member \<open>candidates\<close> yields the fallback string.
\<close>

lemma has_answer_total: "result \<noteq> JNull \<Longrightarrow> \<exists>b. has_answer result = Inr b"
  by (cases result)
     (auto simp: has_answer_def and_then_def dot_def at0_def split: option.splits json.splits)

lemma call_candidates_missing:
  assumes "apiKey = Some k" "k \<noteq> []"
    and "net (length (requests w)) (post (apiUrl apiKey) (payload prompt)) = Resolved r"
    and "ok r" "json_body r = Inr body"
    and "body \<noteq> JNull" "obj_field ''candidates'' body = None"
  shows "callGeminiAPI apiKey net prompt retries delay w =
           (Inr (Some (JStr (utf16 fallback_message))),
            w\<lparr>requests := requests w @ [post (apiUrl apiKey) (payload prompt)],
              console := console w @ [''Unexpected API response structure:'']\<rparr>)"
proof -
  have "has_answer body = Inr False"
    using assms(6,7) by (cases body) (simp_all add: has_answer_def and_then_def dot_def)
  then show ?thesis
    using assms(3-5)
    by (subst call_unfold [OF assms(1,2)]) (simp add: try_block_def fetch_def console_error_def)
qed

lemma first_candidate_text_envelope: "first_candidate_text (envelope t) = Some (JStr t)"
  by (simp add: first_candidate_text_def envelope_def)

text \<open>
  Claim C1. When the endpoint answers 429 to the first \<open>n\<close> attempts and the next attempt
  is OK with a well-formed body, and \<open>n\<close> retries are allowed, the client returns the text
  of the body after \<open>n + 1\<close> requests, having waited \<open>delay\<close>, \<open>2 * delay\<close>,
  \<open>4 * delay\<close>, ... between them; with the default parameters the waits start at 1000 ms.
\<close>

theorem backoff_429_then_success:
  assumes "apiKey = Some k" "k \<noteq> []"
    and "\<forall>i<n. \<exists>r. net (length (requests w) + i) (post (apiUrl apiKey) (payload prompt)) = Resolved r \<and> status r = 429"
    and "net (length (requests w) + n) (post (apiUrl apiKey) (payload prompt)) = Resolved r"
    and "ok r" "json_body r = Inr body"
    and "first_candidate_text body = Some (JStr t)" "t \<noteq> []"
  shows "(int n \<le> retries \<longrightarrow>
           callGeminiAPI apiKey net prompt retries delay w =
             (Inr (Some (JStr t)),
              w\<lparr>requests := requests w @ replicate (Suc n) (post (apiUrl apiKey) (payload prompt)),
                timeouts := timeouts w @ map (\<lambda>i. delay * 2 ^ i) [0..<n]\<rparr>))
       \<and> (n \<le> 3 \<longrightarrow>
           callGeminiAPI_defaults apiKey net prompt w =
             (Inr (Some (JStr t)),
              w\<lparr>requests := requests w @ replicate (Suc n) (post (apiUrl apiKey) (payload prompt)),
                timeouts := timeouts w @ map (\<lambda>i. 1000 * 2 ^ i) [0..<n]\<rparr>))"
proof -
  have tr: "truthy (Some (JStr t))" using assms(8) by simp
  note gen = call_backoff [where net = net and w = w and n = n, OF assms(1-7) tr]
  show ?thesis
    unfolding callGeminiAPI_defaults_def using gen [of retries delay] gen [of 3 1000] by simp
qed

theorem backoff_429_then_success_witness:
  "callGeminiAPI (Some ''k'') flaky (utf16 ''Where is the ISS?'') 2 250 quiet =
     (Inr (Some (JStr (utf16 ''Houston''))),
      \<lparr>requests = replicate 3 (post (apiUrl (Some ''k'')) (payload (utf16 ''Where is the ISS?''))),
       timeouts = [250, 500], console = []\<rparr>)
   \<and> callGeminiAPI_defaults (Some ''k'') flaky (utf16 ''Where is the ISS?'') quiet =
     (Inr (Some (JStr (utf16 ''Houston''))),
      \<lparr>requests = replicate 3 (post (apiUrl (Some ''k'')) (payload (utf16 ''Where is the ISS?''))),
       timeouts = [1000, 2000], console = []\<rparr>)"
proof -
  let ?req = "post (apiUrl (Some ''k'')) (payload (utf16 ''Where is the ISS?''))"
  let ?r = "\<lparr>status = 200, json_body = Inr (envelope (utf16 ''Houston''))\<rparr> :: json response"
  have h1: "Some ''k'' = Some ''k''" "''k'' \<noteq> []" by simp_all
  have h3: "\<forall>i<2. \<exists>r. flaky (length (requests quiet) + i) ?req = Resolved r \<and> status r = 429"
    by (simp add: flaky_def quiet_def)
  have h4: "flaky (length (requests quiet) + 2) ?req = Resolved ?r"
    by (simp add: flaky_def quiet_def)
  have h5: "ok ?r" by (simp add: ok_def)
  have h6: "json_body ?r = Inr (envelope (utf16 ''Houston''))" by simp
  have h8: "utf16 ''Houston'' \<noteq> []" by (simp add: utf16_def)
  have m: "map (\<lambda>i. 1000 * 2 ^ i) [0..<2] = [1000, 2000 :: int]"
    "map (\<lambda>i. 250 * 2 ^ i) [0..<2] = [250, 500 :: int]"
    by (simp_all add: numeral_2_eq_2)
  show ?thesis
    using backoff_429_then_success
        [where net = flaky and w = quiet and n = 2 and retries = 2 and delay = 250,
         OF h1 h3 h4 h5 h6 first_candidate_text_envelope h8]
    by (simp add: quiet_def m numeral_3_eq_3)
qed

text \<open>
  Claim C2. When the first attempt and each of the \<open>retries\<close> further attempts fail, the
  client makes exactly these \<open>retries + 1\<close> requests (one request when \<open>retries\<close> is not
  positive), waits \<open>delay\<close>, \<open>2 * delay\<close>, ... between them, and rejects with the failure
  of the last attempt as it is: it returns no value.
\<close>

theorem exhausted_retries_raise_failure:
  assumes "apiKey = Some k" "k \<noteq> []"
    and "\<forall>i\<le>nat retries. failure (net (length (requests w) + i) (post (apiUrl apiKey) (payload prompt))) = Some (errs i)"
  shows "fst (callGeminiAPI apiKey net prompt retries delay w) = Inl (errs (nat retries))
       \<and> requests (snd (callGeminiAPI apiKey net prompt retries delay w)) =
           requests w @ replicate (Suc (nat retries)) (post (apiUrl apiKey) (payload prompt))
       \<and> timeouts (snd (callGeminiAPI apiKey net prompt retries delay w)) =
           timeouts w @ map (\<lambda>i. delay * 2 ^ i) [0..<nat retries]"
  by (rule call_exhausted [where net = net and w = w, OF assms refl])

theorem exhausted_retries_raise_failure_witness:
  "fst (callGeminiAPI (Some ''k'') offline (utf16 ''Where is the ISS?'') 3 1000 quiet) =
     Inl (TypeError ''Failed to fetch'')
   \<and> requests (snd (callGeminiAPI (Some ''k'') offline (utf16 ''Where is the ISS?'') 3 1000 quiet)) =
       replicate 4 (post (apiUrl (Some ''k'')) (payload (utf16 ''Where is the ISS?'')))
   \<and> timeouts (snd (callGeminiAPI (Some ''k'') offline (utf16 ''Where is the ISS?'') 3 1000 quiet)) =
       [1000, 2000, 4000]"
proof -
  let ?req = "post (apiUrl (Some ''k'')) (payload (utf16 ''Where is the ISS?''))"
  have h1: "Some ''k'' = Some ''k''" "''k'' \<noteq> []" by simp_all
  have h3: "\<forall>i\<le>nat 3. failure (offline (length (requests quiet) + i) ?req) = Some ((\<lambda>i. TypeError ''Failed to fetch'') i)"
    by (simp add: offline_def failure_def)
  have m: "map (\<lambda>i. 1000 * 2 ^ i) [0..<3] = [1000, 2000, 4000 :: int]"
    by (simp add: numeral_3_eq_3)
  show ?thesis
    using exhausted_retries_raise_failure
        [where net = offline and w = quiet and retries = 3 and delay = 1000, OF h1 h3]
    by (simp add: quiet_def m)
qed

text \<open>
  Claim C3. The claim is that a status other than 429 is raised without a retry. The
  \<open>throw\<close> for such a status stands inside the \<open>try\<close> block, so the \<open>catch\<close>
  receives it and retries: after a 500 and then a well-formed answer, the default call
  has made two requests, waited 1000 ms and returns the answer.
\<close>

theorem status_500_is_retried:
  "callGeminiAPI_defaults (Some ''k'') server_error_once (utf16 ''Where is the ISS?'') quiet =
     (Inr (Some (JStr (utf16 ''Houston''))),
      \<lparr>requests = replicate 2 (post (apiUrl (Some ''k'')) (payload (utf16 ''Where is the ISS?''))),
       timeouts = [1000], console = [''Error calling Gemini API:'']\<rparr>)"
  by code_simp

text \<open>
  Claim C4. The claim is that an OK body without candidates yields the fallback string
  and never a failure. The body \<open>null\<close> has no candidates, and reading
  \<open>result.candidates\<close> of it throws: with no retry left the client rejects with that
  TypeError, and the default call rejects with it after its retries.
\<close>

theorem null_body_raises:
  "callGeminiAPI (Some ''k'') null_body (utf16 ''Where is the ISS?'') 0 1000 quiet =
     (Inl (TypeError ''Cannot read properties of null''),
      \<lparr>requests = [post (apiUrl (Some ''k'')) (payload (utf16 ''Where is the ISS?''))],
       timeouts = [], console = [''Error calling Gemini API:'']\<rparr>)
   \<and> fst (callGeminiAPI_defaults (Some ''k'') null_body (utf16 ''Where is the ISS?'') quiet) =
       Inl (TypeError ''Cannot read properties of null'')"
  by code_simp

text \<open>
  Claim C5. When the attempt is answered OK with a body whose
  \<open>candidates[0].content.parts[0].text\<close> is a non-empty string, the client returns
  exactly that string, after this one request.
\<close>

theorem well_formed_body_returns_text:
  assumes "apiKey = Some k" "k \<noteq> []"
    and "net (length (requests w)) (post (apiUrl apiKey) (payload prompt)) = Resolved r"
    and "ok r" "json_body r = Inr body"
    and "first_candidate_text body = Some (JStr t)" "t \<noteq> []"
  shows "callGeminiAPI apiKey net prompt retries delay w =
           (Inr (Some (JStr t)), w\<lparr>requests := requests w @ [post (apiUrl apiKey) (payload prompt)]\<rparr>)"
  using assms(7) by (intro call_success [where net = net and w = w, OF assms(1-6)]) simp

theorem well_formed_body_returns_text_witness:
  "callGeminiAPI (Some ''k'') healthy (utf16 ''Where is the ISS?'') 3 1000 quiet =
   (Inr (Some (JStr (utf16 ''Houston''))),
    \<lparr>requests = [post (apiUrl (Some ''k'')) (payload (utf16 ''Where is the ISS?''))], timeouts = [], console = []\<rparr>)"
proof -
  let ?r = "\<lparr>status = 200, json_body = Inr (envelope (utf16 ''Houston''))\<rparr> :: json response"
  have h1: "Some ''k'' = Some ''k''" "''k'' \<noteq> []" by simp_all
  have h3: "healthy (length (requests quiet)) (post (apiUrl (Some ''k'')) (payload (utf16 ''Where is the ISS?''))) = Resolved ?r"
    by (simp add: healthy_def)
  have h4: "ok ?r" by (simp add: ok_def)
  have h5: "json_body ?r = Inr (envelope (utf16 ''Houston''))" by simp
  have h7: "utf16 ''Houston'' \<noteq> []" by (simp add: utf16_def)
  show ?thesis
    using well_formed_body_returns_text
        [where net = healthy and w = quiet and retries = 3 and delay = 1000,
         OF h1 h3 h4 h5 first_candidate_text_envelope h7]
    by (simp add: quiet_def)
qed

text \<open>
  Claim C6. When the environment holds no credential (the variable is not set, or is the
  empty string), the client returns the message about the missing key at once, whatever
  the prompt, the retry count and the delay: it sends no request and waits for nothing;
  it only logs the message.
\<close>

theorem missing_credential_short_circuit:
  assumes "apiKey = None \<or> apiKey = Some []"
  shows "callGeminiAPI apiKey net prompt retries delay w =
           (Inr (Some (JStr (utf16 missing_key_message))), w\<lparr>console := console w @ [missing_key_message]\<rparr>)
         \<and> requests (snd (callGeminiAPI apiKey net prompt retries delay w)) = requests w
         \<and> timeouts (snd (callGeminiAPI apiKey net prompt retries delay w)) = timeouts w"
  by (simp add: call_no_key [OF assms] console_error_def)

theorem missing_credential_short_circuit_witness:
  "callGeminiAPI None healthy (utf16 ''Where is the ISS?'') 3 1000 quiet =
   (Inr (Some (JStr (utf16 missing_key_message))),
    \<lparr>requests = [], timeouts = [], console = [missing_key_message]\<rparr>)"
  using missing_credential_short_circuit [of None healthy "utf16 ''Where is the ISS?''" 3 1000 quiet]
  by (simp add: quiet_def)


text \<open>
  The copies of the client with a literal credential behave as the copy that reads the
  environment does once a credential is set.
\<close>

lemma literal_is_env:
  "k \<noteq> [] \<Longrightarrow> callGeminiAPI (Some k) net prompt retries delay w =
     callGeminiAPI_literal k net prompt retries delay w"
proof (induction k net prompt retries delay w rule: callGeminiAPI_literal.induct)
  case (1 apiKey net prompt retries delay w)
  show ?case
    apply (subst callGeminiAPI.simps)
    apply (subst callGeminiAPI_literal.simps)
    using 1 by (auto simp: Let_def split: prod.splits try_outcome.splits)
qed

section \<open>The trail buffers\<close>

lemma flat_simps [simp]:
  "flat [] = []" "flat ((x, y, z) # ps) = x # y # z # flat ps" "flat (ps @ qs) = flat ps @ flat qs"
  by (simp_all add: flat_def)

lemma length_flat [simp]: "length (flat ps) = 3 * length ps"
  by (induction ps) auto



text \<open>Rounding the stored array commutes with an append.\<close>

lemma map_push_trail:
  "map f (push_trail points (x, y, z)) = push_trail (map f points) (f x, f y, f z)"
  by (simp add: push_trail_def Let_def drop_map)





section \<open>The telemetry poller: properties\<close>

lemma fetchISSData_rejected:
  assumes "net (length (requests (tracker_io s))) (get_request API_URL_ISS) = Rejected e"
  shows "fetchISSData E net s =
           s\<lparr>error := Some (message e),
             tracker_io := (tracker_io s)
               \<lparr>requests := requests (tracker_io s) @ [get_request API_URL_ISS],
                console := console (tracker_io s) @ [''Failed to fetch ISS data:'']\<rparr>\<rparr>"
  using assms by (simp add: fetchISSData_def fetchISSData_try_def fetch_def console_error_def)

lemma fetchISSData_not_ok:
  assumes "net (length (requests (tracker_io s))) (get_request API_URL_ISS) = Resolved r" "\<not> ok r"
  shows "fetchISSData E net s =
           s\<lparr>error := Some ''Network response was not ok'',
             tracker_io := (tracker_io s)
               \<lparr>requests := requests (tracker_io s) @ [get_request API_URL_ISS],
                console := console (tracker_io s) @ [''Failed to fetch ISS data:'']\<rparr>\<rparr>"
  using assms by (simp add: fetchISSData_def fetchISSData_try_def fetch_def console_error_def)

lemma fetchISSData_one_request:
  "requests (tracker_io (fetchISSData E net s)) = requests (tracker_io s) @ [get_request API_URL_ISS]
   \<and> timeouts (tracker_io (fetchISSData E net s)) = timeouts (tracker_io s)"
  by (simp add: fetchISSData_def fetchISSData_try_def fetch_def console_error_def Let_def
        orbit_step_def ground_step_def
      split: fetch_outcome.splits sum.splits option.splits prod.splits)

lemma fetchISSData_success:
  assumes "net (length (requests (tracker_io s))) (get_request API_URL_ISS) = Resolved r" "ok r"
    and "json_body r = Inr data"
    and "issMesh s = Some old" "orbitLine s = Some orbit" "groundTrackLine s = Some ground"
  shows "fetchISSData E net s =
           s\<lparr>issData := Some data, error := None,
             issMesh := Some (geo_to_cartesian E (issRadius_of E (altitude data)) (latitude data) (longitude data)),
             orbitLine := Some (map (toFloat32 E) (push_trail orbit
               (geo_to_cartesian E (issRadius_of E (altitude data)) (latitude data) (longitude data)))),
             groundTrackLine := Some (map (toFloat32 E) (push_trail ground
               (geo_to_cartesian E (groundTrackRadius E) (latitude data) (longitude data)))),
             tracker_io := (tracker_io s)
               \<lparr>requests := requests (tracker_io s) @ [get_request API_URL_ISS]\<rparr>\<rparr>"
  using assms
  by (simp add: fetchISSData_def fetchISSData_try_def fetch_def Let_def
        orbit_step_def ground_step_def geo_to_cartesian_def)

text \<open>
  Claim C9. When the request of a poll is rejected or answered with a status that is
  not OK, the stored sample, the position of the mesh and both trail buffers stay as they
  were, the error state holds the message of the failure, and the poll has sent this one
  request and waited for nothing: there is no retry inside the tick. The next poll sends
  its request as usual.
\<close>

theorem poll_failure_keeps_sample:
  assumes "net (length (requests (tracker_io s))) (get_request API_URL_ISS) = out"
    and "(\<exists>e. out = Rejected e) \<or> (\<exists>r. out = Resolved r \<and> \<not> ok r)"
  shows "issData (fetchISSData E net s) = issData s
       \<and> orbitLine (fetchISSData E net s) = orbitLine s
       \<and> groundTrackLine (fetchISSData E net s) = groundTrackLine s
       \<and> issMesh (fetchISSData E net s) = issMesh s
       \<and> error (fetchISSData E net s) =
           Some (case out of Rejected e \<Rightarrow> message e | Resolved r \<Rightarrow> ''Network response was not ok'')
       \<and> requests (tracker_io (fetchISSData E net s)) =
           requests (tracker_io s) @ [get_request API_URL_ISS]
       \<and> timeouts (tracker_io (fetchISSData E net s)) = timeouts (tracker_io s)
       \<and> requests (tracker_io (fetchISSData E net (fetchISSData E net s))) =
           requests (tracker_io s) @ [get_request API_URL_ISS, get_request API_URL_ISS]"
proof -
  have twice: "requests (tracker_io (fetchISSData E net (fetchISSData E net s))) =
      requests (tracker_io s) @ [get_request API_URL_ISS, get_request API_URL_ISS]"
    by (simp add: fetchISSData_one_request)
  from assms(2) show ?thesis
  proof
    assume "\<exists>e. out = Rejected e"
    then obtain e where e: "out = Rejected e" ..
    show ?thesis
      using twice by (simp add: fetchISSData_rejected [where E = E and net = net and s = s, OF assms(1) [unfolded e]] e)
  next
    assume "\<exists>r. out = Resolved r \<and> \<not> ok r"
    then obtain r where r: "out = Resolved r" "\<not> ok r" by blast
    show ?thesis
      using twice by (simp add: fetchISSData_not_ok [where E = E and net = net and s = s, OF assms(1) [unfolded r(1)] r(2)] r(1))
  qed
qed

theorem poll_failure_keeps_sample_witness:
  "issData (fetchISSData unrounded iss_offline tracking) = Some overhead
   \<and> orbitLine (fetchISSData unrounded iss_offline tracking) = Some [0, 0, - 3]
   \<and> groundTrackLine (fetchISSData unrounded iss_offline tracking) = Some [0, 0, - 2]
   \<and> error (fetchISSData unrounded iss_offline tracking) = Some ''Failed to fetch''
   \<and> requests (tracker_io (fetchISSData unrounded iss_offline tracking)) = [get_request API_URL_ISS]
   \<and> timeouts (tracker_io (fetchISSData unrounded iss_offline tracking)) = []
   \<and> issData (fetchISSData unrounded iss_unavailable tracking) = Some overhead
   \<and> error (fetchISSData unrounded iss_unavailable tracking) = Some ''Network response was not ok''"
proof -
  let ?r = "\<lparr>status = 503, json_body = Inl (SyntaxError ''Unexpected end of JSON input'')\<rparr> :: real sample response"
  have h1: "iss_offline (length (requests (tracker_io tracking))) (get_request API_URL_ISS) =
      Rejected (TypeError ''Failed to fetch'')"
    by (simp add: iss_offline_def)
  have h2: "(\<exists>e. Rejected (TypeError ''Failed to fetch'') = (Rejected e :: real sample fetch_outcome)) \<or>
      (\<exists>r :: real sample response. Rejected (TypeError ''Failed to fetch'') = Resolved r \<and> \<not> ok r)"
    by simp
  have g1: "iss_unavailable (length (requests (tracker_io tracking))) (get_request API_URL_ISS) =
      Resolved ?r"
    by (simp add: iss_unavailable_def)
  have "\<not> ok ?r" by (simp add: ok_def)
  then have g2: "(\<exists>e. Resolved ?r = Rejected e) \<or> (\<exists>r. Resolved ?r = Resolved r \<and> \<not> ok r)"
    by blast
  show ?thesis
    using poll_failure_keeps_sample [where E = unrounded and net = iss_offline and s = tracking, OF h1 h2]
      poll_failure_keeps_sample [where E = unrounded and net = iss_unavailable and s = tracking, OF g1 g2]
    by (simp add: tracking_def quiet_def)
qed

section \<open>The chatbot: properties\<close>

lemma dropWhile_all_Nil: "(\<forall>c \<in> set (dropWhile P s). P c) \<longleftrightarrow> dropWhile P s = []"
proof
  assume a: "\<forall>c \<in> set (dropWhile P s). P c"
  show "dropWhile P s = []"
  proof (rule ccontr)
    assume n: "dropWhile P s \<noteq> []"
    then have "\<not> P (hd (dropWhile P s))" by (rule hd_dropWhile)
    moreover have "hd (dropWhile P s) \<in> set (dropWhile P s)" using n by simp
    ultimately show False using a by blast
  qed
qed (simp del: dropWhile_eq_Nil_conv)

text \<open>The trimmed input is empty exactly when every code unit of the input is white space.\<close>

lemma trim_empty: "trim s = [] \<longleftrightarrow> list_all is_white_space s"
proof -
  have "trim s = [] \<longleftrightarrow> (\<forall>c \<in> set (dropWhile is_white_space s). is_white_space c)"
    by (simp add: trim_def)
  also have "\<dots> \<longleftrightarrow> dropWhile is_white_space s = []"
    by (rule dropWhile_all_Nil)
  also have "\<dots> \<longleftrightarrow> list_all is_white_space s"
    by (simp add: list_all_iff)
  finally show ?thesis .
qed

text \<open>
  Claim C10. When every code unit of the input is white space (the empty input
  included), or a request is in flight, \<open>handleSend\<close> changes nothing and sends
  nothing. Otherwise it appends the message of the user, clears the input and sets the
  loading flag, and only then calls the client, in the world as it was; when the promise
  of the client is rejected it logs the failure and appends the apology as a message of
  the bot, when it is fulfilled it appends the value, and in both cases it clears the
  loading flag last.
\<close>

theorem handleSend_guard_and_apology:
  "(list_all is_white_space (input st) \<or> isLoading st \<longrightarrow> handleSend apiKey net st = st)
   \<and> (\<not> (list_all is_white_space (input st) \<or> isLoading st) \<longrightarrow>
        (\<forall>e w. callGeminiAPI_literal apiKey net (chat_prompt (input st)) 3 1000 (chat_io st) =
                 (Inl e, w) \<longrightarrow>
            handleSend apiKey net st =
              st\<lparr>messages := messages st @ [user_message st, apology_message],
                 input := [], isLoading := False,
                 chat_io := console_error ''Failed to get response from AI:'' w,
                 chat_events := chat_events st @
                   [Appended (user_message st), InputSet [], LoadingSet True,
                    Called (chat_prompt (input st)), Appended apology_message,
                    LoadingSet False]\<rparr>)
      \<and> (\<forall>v w. callGeminiAPI_literal apiKey net (chat_prompt (input st)) 3 1000 (chat_io st) =
                 (Inr v, w) \<longrightarrow>
            handleSend apiKey net st =
              st\<lparr>messages := messages st @ [user_message st, \<lparr>msg_text = v, msg_sender = Bot\<rparr>],
                 input := [], isLoading := False, chat_io := w,
                 chat_events := chat_events st @
                   [Appended (user_message st), InputSet [], LoadingSet True,
                    Called (chat_prompt (input st)),
                    Appended \<lparr>msg_text = v, msg_sender = Bot\<rparr>, LoadingSet False]\<rparr>))"
proof (intro conjI impI allI)
  assume "list_all is_white_space (input st) \<or> isLoading st"
  then show "handleSend apiKey net st = st"
    by (simp add: handleSend_def trim_empty)
next
  fix e w
  assume g: "\<not> (list_all is_white_space (input st) \<or> isLoading st)"
    and c: "callGeminiAPI_literal apiKey net (chat_prompt (input st)) 3 1000 (chat_io st) = (Inl e, w)"
  show "handleSend apiKey net st =
      st\<lparr>messages := messages st @ [user_message st, apology_message],
         input := [], isLoading := False,
         chat_io := console_error ''Failed to get response from AI:'' w,
         chat_events := chat_events st @
           [Appended (user_message st), InputSet [], LoadingSet True,
            Called (chat_prompt (input st)), Appended apology_message, LoadingSet False]\<rparr>"
    using g c
    by (simp add: handleSend_def trim_empty Let_def await_callGeminiAPI_def
          setMessages_append_def setInput_def setIsLoading_def user_message_def apology_message_def)
next
  fix v w
  assume g: "\<not> (list_all is_white_space (input st) \<or> isLoading st)"
    and c: "callGeminiAPI_literal apiKey net (chat_prompt (input st)) 3 1000 (chat_io st) = (Inr v, w)"
  show "handleSend apiKey net st =
      st\<lparr>messages := messages st @ [user_message st, \<lparr>msg_text = v, msg_sender = Bot\<rparr>],
         input := [], isLoading := False, chat_io := w,
         chat_events := chat_events st @
           [Appended (user_message st), InputSet [], LoadingSet True,
            Called (chat_prompt (input st)),
            Appended \<lparr>msg_text = v, msg_sender = Bot\<rparr>, LoadingSet False]\<rparr>"
    using g c
    by (simp add: handleSend_def trim_empty Let_def await_callGeminiAPI_def
          setMessages_append_def setInput_def setIsLoading_def user_message_def)
qed

lemma offline_chat:
  "callGeminiAPI_literal ''k'' offline (chat_prompt (utf16 ''Apollo?'')) 3 1000 quiet =
     (Inl (TypeError ''Failed to fetch''),
      \<lparr>requests = replicate 4 (post (apiUrl (Some ''k'')) (payload (chat_prompt (utf16 ''Apollo?'')))),
       timeouts = [1000, 2000, 4000],
       console = replicate 4 ''Error calling Gemini API:''\<rparr>)"
  by code_simp

lemma healthy_chat:
  "callGeminiAPI_literal ''k'' healthy (chat_prompt (utf16 ''Apollo?'')) 3 1000 quiet =
     (Inr (Some (JStr (utf16 ''Houston''))),
      \<lparr>requests = [post (apiUrl (Some ''k'')) (payload (chat_prompt (utf16 ''Apollo?'')))],
       timeouts = [], console = []\<rparr>)"
  by code_simp

theorem handleSend_guard_and_apology_witness:
  "handleSend ''k'' offline blank = blank
   \<and> messages (handleSend ''k'' offline asking) = [greeting, user_message asking, apology_message]
   \<and> isLoading (handleSend ''k'' offline asking) = False
   \<and> chat_events (handleSend ''k'' offline asking) =
       [Appended (user_message asking), InputSet [], LoadingSet True,
        Called (chat_prompt (utf16 ''Apollo?'')), Appended apology_message, LoadingSet False]
   \<and> messages (handleSend ''k'' healthy asking) =
       [greeting, user_message asking, \<lparr>msg_text = Some (JStr (utf16 ''Houston'')), msg_sender = Bot\<rparr>]"
proof -
  have b: "list_all is_white_space (input blank) \<or> isLoading blank"
    by (simp add: blank_def is_white_space_def)
  have a: "\<not> (list_all is_white_space (input asking) \<or> isLoading asking)"
    by (simp add: asking_def is_white_space_def utf16_def)
  have c: "callGeminiAPI_literal ''k'' offline (chat_prompt (input asking)) 3 1000 (chat_io asking) =
     (Inl (TypeError ''Failed to fetch''),
      \<lparr>requests = replicate 4 (post (apiUrl (Some ''k'')) (payload (chat_prompt (utf16 ''Apollo?'')))),
       timeouts = [1000, 2000, 4000],
       console = replicate 4 ''Error calling Gemini API:''\<rparr>)"
    using offline_chat by (simp add: asking_def)
  have d: "callGeminiAPI_literal ''k'' healthy (chat_prompt (input asking)) 3 1000 (chat_io asking) =
     (Inr (Some (JStr (utf16 ''Houston''))),
      \<lparr>requests = [post (apiUrl (Some ''k'')) (payload (chat_prompt (utf16 ''Apollo?'')))],
       timeouts = [], console = []\<rparr>)"
    using healthy_chat by (simp add: asking_def)
  show ?thesis
    using handleSend_guard_and_apology [of blank "''k''" offline]
      handleSend_guard_and_apology [of asking "''k''" offline]
      handleSend_guard_and_apology [of asking "''k''" healthy] a b c d
    by (simp add: asking_def)
qed

end
